theory Spec2Isabelle
  imports Main
begin

section \<open>Tensors, references and the store\<close>

text \<open>
  The pipeline layers of \<^verbatim>\<open>paddlenlp/transformers/llama/modeling_pp.py\<close> pass tensor
  objects around, set their \<^verbatim>\<open>stop_gradient\<close> attribute in place and clone them. Tensors
  therefore live in a store; a Python variable holding a tensor is a reference into the
  store, and a variable that may be \<^verbatim>\<open>None\<close> is a \<open>ref option\<close>. The codec never
  looks at the numbers of a tensor, so the payload is a type parameter.
\<close>

datatype dtype = Bool | Int32 | Int64 | Float16 | BFloat16 | Float32

record 'a tensor =
  data :: 'a
  shape :: "nat list"
  dtype :: dtype
  stop_gradient :: bool

type_synonym ref = nat
type_synonym 'a store = "'a tensor list"

text \<open>Exceptions of the source are values; the string is the message (or the name involved).\<close>

datatype error =
    UnboundLocalError string
  | AssertionError string
  | AttributeError string
  | ValueError string
  | NotImplementedError string
  | KeyError string
  | IndexError
  | ZeroDivisionError
  | ExternalError string

text \<open>
  What a layer receives as \<^verbatim>\<open>args\<close>: a tuple of values, or a value that is not a tuple.
  An element of a tuple may be \<^verbatim>\<open>None\<close> (the first stage receives
  \<^verbatim>\<open>(input_ids, attention_mask, None, None)\<close> from the batch splitter).
\<close>

datatype args = NonTuple "ref option" | Tuple "ref option list"

text \<open>The five names \<^verbatim>\<open>parse_args\<close> returns, in its order:
  \<^verbatim>\<open>hidden_states, attention_mask, attn_mask_startend_row_indices, position_ids, alibi\<close>.\<close>

type_synonym slots = "ref option \<times> ref option \<times> ref option \<times> ref option \<times> ref option"

text \<open>The four auxiliary names, in the same order:
  \<^verbatim>\<open>attention_mask, attn_mask_startend_row_indices, position_ids, alibi\<close>.\<close>

type_synonym aux = "ref option \<times> ref option \<times> ref option \<times> ref option"

section \<open>The argument codec: \<^verbatim>\<open>parse_args\<close> and \<^verbatim>\<open>return_args\<close>\<close>

text \<open>\<^verbatim>\<open>if x is not None: x.stop_gradient = True\<close>\<close>

definition set_stop_gradient :: "'a store \<Rightarrow> ref option \<Rightarrow> 'a store" where
  "set_stop_gradient s x =
     (case x of None \<Rightarrow> s | Some r \<Rightarrow> s[r := (s ! r)\<lparr>stop_gradient := True\<rparr>])"

text \<open>
  Lines 58--75 of \<^verbatim>\<open>parse_args\<close>: the unpacking by \<^verbatim>\<open>len(args)\<close>. A tuple of any
  other length matches no branch, assigns nothing, and the first read of
  \<^verbatim>\<open>position_ids\<close> on line 77 raises \<^verbatim>\<open>UnboundLocalError\<close>.
\<close>

fun unpack_args :: "args \<Rightarrow> error + slots" where
  "unpack_args (Tuple [hidden_states, attention_mask, attn_mask_startend_row_indices, position_ids, alibi]) =
     Inr (hidden_states, attention_mask, attn_mask_startend_row_indices, position_ids, alibi)"
| "unpack_args (Tuple [hidden_states, attention_mask, attn_mask_startend_row_indices, position_ids]) =
     Inr (hidden_states, attention_mask, attn_mask_startend_row_indices, position_ids, None)"
| "unpack_args (Tuple [hidden_states, attention_mask, attn_mask_startend_row_indices]) =
     Inr (hidden_states, attention_mask, attn_mask_startend_row_indices, None, None)"
| "unpack_args (Tuple [hidden_states, attention_mask]) =
     Inr (hidden_states, attention_mask, None, None, None)"
| "unpack_args (Tuple _) = Inl (UnboundLocalError ''position_ids'')"
| "unpack_args (NonTuple hidden_states) = Inr (hidden_states, None, None, None, None)"

text \<open>Lines 77--89: the four in-place assignments, in the source's order, and the return.\<close>

definition parse_args :: "'a store \<Rightarrow> args \<Rightarrow> error + ('a store \<times> slots)" where
  "parse_args s args =
     (case unpack_args args of
        Inl e \<Rightarrow> Inl e
      | Inr (hidden_states, attention_mask, attn_mask_startend_row_indices, position_ids, alibi) \<Rightarrow>
          let s1 = set_stop_gradient s position_ids;
              s2 = set_stop_gradient s1 attention_mask;
              s3 = set_stop_gradient s2 attn_mask_startend_row_indices;
              s4 = set_stop_gradient s3 alibi
          in Inr (s4, (hidden_states, attention_mask, attn_mask_startend_row_indices, position_ids, alibi)))"

text \<open>
  \<^verbatim>\<open>Tensor.clone()\<close> is Paddle's: it allocates a new tensor object with the contents of
  the old one. The new object is the next free cell of the store.
\<close>

definition clone :: "'a store \<Rightarrow> ref \<Rightarrow> 'a store \<times> ref" where
  "clone s r = (s @ [s ! r], length s)"

text \<open>\<^verbatim>\<open>if x is not None: ret += (x.clone(),)\<close>\<close>

definition append_clone :: "'a store \<times> ref option list \<Rightarrow> ref option \<Rightarrow> 'a store \<times> ref option list" where
  "append_clone sr x =
     (case x of
        None \<Rightarrow> sr
      | Some r \<Rightarrow> (case clone (fst sr) r of (s', c) \<Rightarrow> (s', snd sr @ [Some c])))"

definition return_args ::
  "'a store \<Rightarrow> ref option \<Rightarrow> ref option \<Rightarrow> ref option \<Rightarrow> ref option \<Rightarrow> ref option \<Rightarrow> 'a store \<times> args" where
  "return_args s hidden_states attention_mask attn_mask_startend_row_indices position_ids alibi =
     (let r0 = (s, [hidden_states]);
          r1 = append_clone r0 attention_mask;
          r2 = append_clone r1 attn_mask_startend_row_indices;
          r3 = append_clone r2 position_ids;
          r4 = append_clone r3 alibi
      in (fst r4, if length (snd r4) = 1 then NonTuple (snd r4 ! 0) else Tuple (snd r4)))"


section \<open>Configuration and layer objects\<close>

text \<open>
  The fields of \<^verbatim>\<open>LlamaConfig\<close> this file reads. \<^verbatim>\<open>LlamaConfig\<close> itself is declared
  outside the file; \<open>virtual_pp_degree\<close> is read with \<^verbatim>\<open>getattr(..., 1)\<close>, so it may be
  missing.
\<close>

record config =
  alibi :: bool
  sequence_parallel :: bool
  num_attention_heads :: int
  num_hidden_layers :: int
  tensor_parallel_degree :: int
  tensor_parallel_rank :: int
  tie_word_embeddings :: bool
  recompute_granularity :: string
  recompute_use_reentrant :: bool
  no_recompute_layers :: "int list option"
  virtual_pp_degree :: "int option"

text \<open>
  A \<^verbatim>\<open>LlamaDecoderLayerPipe\<close> object, as far as \<^verbatim>\<open>forward\<close> reads it. The constructor is
  \<^verbatim>\<open>LlamaDecoderLayer\<close>'s (outside the file); it keeps the keyword arguments
  \<^verbatim>\<open>layerwise_recompute\<close> and \<^verbatim>\<open>skip_recompute_ops\<close> under their names.
  \<^verbatim>\<open>enable_recompute\<close> is an attribute no line of this file assigns: it is a field of its
  own here, set by whoever builds or trains the model.
\<close>

record decoder_layer =
  enable_recompute :: bool
  layerwise_recompute :: bool
  skip_recompute_ops :: "(string \<times> bool) list"

section \<open>The mask resolver\<close>

text \<open>\<^verbatim>\<open>x is not None and x.dtype == d\<close>\<close>

definition has_dtype :: "'a store \<Rightarrow> ref option \<Rightarrow> dtype \<Rightarrow> bool" where
  "has_dtype s x d = (case x of None \<Rightarrow> False | Some r \<Rightarrow> dtype (s ! r) = d)"

text \<open>
  The \<^verbatim>\<open>if\<close>/\<^verbatim>\<open>elif\<close> chain that follows \<^verbatim>\<open>parse_args\<close> in
  \<^verbatim>\<open>LlamaEmbeddingPipe.forward\<close> (lines 152--183) and, word for word, in
  \<^verbatim>\<open>LlamaDecoderLayerPipe.forward\<close> (lines 249--280). \<open>device\<close> is what
  \<^verbatim>\<open>get_env_device()\<close> returns. A case in which no branch fires leaves the four names
  as they are.
\<close>

definition resolve_masks :: "config \<Rightarrow> string \<Rightarrow> 'a store \<Rightarrow> aux \<Rightarrow> aux" where
  "resolve_masks config device s x =
     (case x of (attention_mask, attn_mask_startend_row_indices, position_ids, alibi_t) \<Rightarrow>
        if alibi config \<and> alibi_t = None \<and> position_ids = None
           \<and> attn_mask_startend_row_indices \<noteq> None
        then (attention_mask, None, None, attn_mask_startend_row_indices)
        else if alibi config \<and> alibi_t = None \<and> position_ids \<noteq> None
           \<and> attn_mask_startend_row_indices \<noteq> None
        then (attention_mask, None, attn_mask_startend_row_indices, position_ids)
        else if \<not> alibi config then
          (if device \<in> set [''gpu''] then
             (if has_dtype s attention_mask Int32
              then (None, attention_mask, attn_mask_startend_row_indices, alibi_t)
              else if has_dtype s attention_mask Int64
              then (None, None, attention_mask, alibi_t)
              else if has_dtype s attn_mask_startend_row_indices Int64
              then (attention_mask, None, attn_mask_startend_row_indices, alibi_t)
              else x)
           else if position_ids = None \<and> attn_mask_startend_row_indices \<noteq> None
           then (attention_mask, None, attn_mask_startend_row_indices, alibi_t)
           else x)
        else x)"

text \<open>The first lines of both \<^verbatim>\<open>forward\<close> methods: \<^verbatim>\<open>parse_args\<close>, then the resolver.\<close>

definition parse_and_resolve ::
  "config \<Rightarrow> string \<Rightarrow> 'a store \<Rightarrow> args \<Rightarrow> error + ('a store \<times> ref option \<times> aux)" where
  "parse_and_resolve config device s args =
     (case parse_args s args of
        Inl e \<Rightarrow> Inl e
      | Inr (s', (hidden_states, attention_mask, attn_mask_startend_row_indices, position_ids, alibi_t)) \<Rightarrow>
          Inr (s', hidden_states,
               resolve_masks config device s'
                 (attention_mask, attn_mask_startend_row_indices, position_ids, alibi_t)))"

section \<open>\<^verbatim>\<open>LlamaDecoderLayerPipe.forward\<close>: the recompute decision\<close>

datatype recompute_fn = rr_recompute | recompute

text \<open>
  How \<^verbatim>\<open>forward\<close> runs the decoder layer: \<^verbatim>\<open>super().forward(hidden_states, **kwargs)\<close>
  directly, or through one of the two recompute wrappers with \<^verbatim>\<open>use_reentrant\<close>. The
  keyword arguments are kept as the source writes them, name by name.
\<close>

datatype forward_call =
    Direct ref "(string \<times> ref option) list"
  | Recomputed recompute_fn ref "(string \<times> ref option) list" bool

text \<open>The condition of lines 283--288.\<close>

definition should_recompute :: "config \<Rightarrow> decoder_layer \<Rightarrow> bool \<Rightarrow> bool" where
  "should_recompute config layer has_gradient =
     (enable_recompute layer \<and> layerwise_recompute layer
      \<and> recompute_granularity config = ''full'' \<and> has_gradient)"

text \<open>Lines 282--316: which call \<^verbatim>\<open>forward\<close> makes, for the resolved names.\<close>

definition decoder_call :: "config \<Rightarrow> decoder_layer \<Rightarrow> 'a store \<Rightarrow> ref \<Rightarrow> aux \<Rightarrow> forward_call" where
  "decoder_call config layer s hidden_states x =
     (case x of (attention_mask, attn_mask_startend_row_indices, position_ids, alibi_t) \<Rightarrow>
        let has_gradient = \<not> stop_gradient (s ! hidden_states) in
        if should_recompute config layer has_gradient then
          (let fn = (if list_ex snd (skip_recompute_ops layer) then rr_recompute else recompute) in
           if attention_mask \<noteq> None \<or> alibi_t \<noteq> None \<or> attn_mask_startend_row_indices \<noteq> None
           then Recomputed fn hidden_states
                  [(''position_ids'', position_ids), (''attention_mask'', attention_mask),
                   (''alibi'', alibi_t),
                   (''attn_mask_startend_row_indices'', attn_mask_startend_row_indices)]
                  False
           else Recomputed fn hidden_states
                  [(''position_ids'', position_ids),
                   (''attn_mask_startend_row_indices'', attn_mask_startend_row_indices)]
                  (recompute_use_reentrant config))
        else Direct hidden_states
               [(''position_ids'', position_ids), (''attention_mask'', attention_mask),
                (''alibi'', alibi_t),
                (''attn_mask_startend_row_indices'', attn_mask_startend_row_indices)])"


section \<open>\<^verbatim>\<open>LlamaEmbeddingPipe.forward\<close>\<close>

text \<open>
  The tensor operations of Paddle and of \<^verbatim>\<open>modeling.py\<close> the method calls. They are
  outside the file, so they are parameters; each may raise. \<open>scatter\<close> is lines 190--193
  (the shape unpacking, \<^verbatim>\<open>reshape_\<close> and \<^verbatim>\<open>ScatterOp.apply\<close>); \<open>slice_heads t lo hi\<close> is
  \<^verbatim>\<open>t[:, lo:hi]\<close>.
\<close>

record 'a externals =
  embed_tokens :: "'a tensor option \<Rightarrow> error + 'a tensor"
  scatter :: "'a tensor \<Rightarrow> error + 'a tensor"
  ones_bool :: "nat list \<Rightarrow> 'a tensor"
  tril :: "'a tensor \<Rightarrow> 'a tensor"
  astype_bool :: "'a tensor \<Rightarrow> 'a tensor"
  build_alibi_tensor :: "'a tensor \<Rightarrow> int \<Rightarrow> dtype \<Rightarrow> error + 'a tensor"
  slice_heads :: "'a tensor \<Rightarrow> int \<Rightarrow> int \<Rightarrow> error + 'a tensor"
  reshape :: "'a tensor \<Rightarrow> int list \<Rightarrow> error + 'a tensor"
  prepare_decoder_attention_mask ::
    "'a tensor option \<Rightarrow> nat \<times> nat \<Rightarrow> dtype \<Rightarrow> error + 'a tensor"

text \<open>A tensor an operation creates is a new object of the store.\<close>

definition alloc :: "'a store \<Rightarrow> 'a tensor \<Rightarrow> 'a store \<times> ref" where
  "alloc s t = (s @ [t], length s)"

definition alloc_some :: "'a store \<Rightarrow> 'a tensor \<Rightarrow> 'a store \<times> ref option" where
  "alloc_some s t = (fst (alloc s t), Some (snd (alloc s t)))"

definition bind_err :: "error + 'x \<Rightarrow> ('x \<Rightarrow> error + 'y) \<Rightarrow> error + 'y" where
  "bind_err m f = (case m of Inl e \<Rightarrow> Inl e | Inr v \<Rightarrow> f v)"

text \<open>Lines 185--193: the embedding lookup, scattered under sequence parallelism.\<close>

definition embed_step ::
  "config \<Rightarrow> 'a externals \<Rightarrow> 'a store \<Rightarrow> ref option \<Rightarrow> error + ('a store \<times> ref)" where
  "embed_step config ext s input_ids =
     bind_err (embed_tokens ext (map_option (\<lambda>r. s ! r) input_ids)) (\<lambda>input_embeds.
     bind_err (if sequence_parallel config then scatter ext input_embeds else Inr input_embeds)
       (\<lambda>input_embeds. Inr (alloc s input_embeds)))"

text \<open>Line 195: \<^verbatim>\<open>batch_size, seq_length = input_ids.shape\<close>.\<close>

definition input_shape :: "'a store \<Rightarrow> ref option \<Rightarrow> error + (nat \<times> nat)" where
  "input_shape s input_ids =
     (case input_ids of
        None \<Rightarrow> Inl (AttributeError ''shape'')
      | Some r \<Rightarrow>
          (case shape (s ! r) of
             [batch_size, seq_length] \<Rightarrow> Inr (batch_size, seq_length)
           | _ \<Rightarrow> Inl (ValueError ''unpack'')))"

text \<open>
  Lines 196--220: \<^verbatim>\<open>alibi\<close> is reset to \<^verbatim>\<open>None\<close>, and rebuilt when the configuration uses
  a positional bias; the assertion on line 198 comes first.
\<close>

definition alibi_step ::
  "config \<Rightarrow> 'a externals \<Rightarrow> 'a store \<Rightarrow> ref option \<Rightarrow> ref option \<Rightarrow> nat \<times> nat \<Rightarrow> ref
   \<Rightarrow> error + ('a store \<times> ref option)" where
  "alibi_step config ext s attention_mask attn_mask_startend_row_indices bs input_embeds =
     (case bs of (batch_size, seq_length) \<Rightarrow>
      if alibi config then
        (if attn_mask_startend_row_indices \<noteq> None
         then Inl (AssertionError ''alibi and attn_mask_startend_row_indices can not be set at same time'')
         else
           let mask = (case attention_mask of
                         Some r \<Rightarrow> s ! r
                       | None \<Rightarrow> ones_bool ext [batch_size, seq_length]) in
           bind_err (build_alibi_tensor ext mask (num_attention_heads config)
                       (dtype (s ! input_embeds))) (\<lambda>a.
           bind_err
             (if tensor_parallel_degree config > 1 then
                (let block_size = num_attention_heads config div tensor_parallel_degree config in
                 bind_err (slice_heads ext a (tensor_parallel_rank config * block_size)
                             ((tensor_parallel_rank config + 1) * block_size)) (\<lambda>a.
                 reshape ext a [int batch_size * block_size, 1, int seq_length]))
              else reshape ext a [int batch_size * num_attention_heads config, 1, int seq_length])
             (\<lambda>a. Inr (alloc_some s (a\<lparr>stop_gradient := True\<rparr>)))))
      else Inr (s, None))"

text \<open>Lines 222--234: the attention mask; the assertion on line 223 comes first.\<close>

definition mask_step ::
  "string \<Rightarrow> 'a externals \<Rightarrow> 'a store \<Rightarrow> ref option \<Rightarrow> ref option \<Rightarrow> nat \<times> nat \<Rightarrow> ref
   \<Rightarrow> error + ('a store \<times> ref option)" where
  "mask_step device ext s attention_mask attn_mask_startend_row_indices bs input_embeds =
     (case bs of (batch_size, seq_length) \<Rightarrow>
      (case attention_mask of
        Some r \<Rightarrow>
          (if attn_mask_startend_row_indices \<noteq> None
           then Inl (AssertionError
                  ''attention_mask and attn_mask_startend_row_indices can not be set at same time'')
           else
             bind_err (prepare_decoder_attention_mask ext (Some (s ! r)) (batch_size, seq_length)
                         (dtype (s ! input_embeds))) (\<lambda>m.
               let m = m\<lparr>stop_gradient := True\<rparr>;
                   m = (if device = ''npu'' then astype_bool ext m else m)
               in Inr (alloc_some s m)))
      | None \<Rightarrow>
          (if device = ''npu''
           then Inr (alloc_some s
                       ((tril ext (ones_bool ext [seq_length, seq_length]))\<lparr>stop_gradient := True\<rparr>))
           else Inr (s, None))))"

text \<open>Lines 236--240.\<close>

definition alibi_mask_step ::
  "config \<Rightarrow> 'a externals \<Rightarrow> 'a store \<Rightarrow> ref option \<Rightarrow> nat \<times> nat \<Rightarrow> ref
   \<Rightarrow> error + ('a store \<times> ref option)" where
  "alibi_mask_step config ext s attention_mask bs input_embeds =
     (if alibi config \<and> attention_mask = None then
        bind_err (prepare_decoder_attention_mask ext None bs (dtype (s ! input_embeds))) (\<lambda>m.
          Inr (alloc_some s (m\<lparr>stop_gradient := True\<rparr>)))
      else Inr (s, attention_mask))"

text \<open>Lines 185--242, from the resolved names on.\<close>

definition embedding_body ::
  "config \<Rightarrow> string \<Rightarrow> 'a externals \<Rightarrow> 'a store \<Rightarrow> ref option \<Rightarrow> aux
   \<Rightarrow> error + ('a store \<times> args)" where
  "embedding_body config device ext s input_ids x =
     (case x of (attention_mask, attn_mask_startend_row_indices, position_ids, alibi_t) \<Rightarrow>
      bind_err (embed_step config ext s input_ids) (\<lambda>(s, input_embeds).
      bind_err (input_shape s input_ids) (\<lambda>bs.
      bind_err (alibi_step config ext s attention_mask attn_mask_startend_row_indices bs input_embeds)
        (\<lambda>(s, alibi_t).
      bind_err (mask_step device ext s attention_mask attn_mask_startend_row_indices bs input_embeds)
        (\<lambda>(s, attention_mask).
      bind_err (alibi_mask_step config ext s attention_mask bs input_embeds)
        (\<lambda>(s, attention_mask).
      Inr (return_args s (Some input_embeds) attention_mask attn_mask_startend_row_indices
             position_ids alibi_t)))))))"

definition LlamaEmbeddingPipe_forward ::
  "config \<Rightarrow> string \<Rightarrow> 'a externals \<Rightarrow> 'a store \<Rightarrow> args \<Rightarrow> error + ('a store \<times> args)" where
  "LlamaEmbeddingPipe_forward config device ext s args =
     bind_err (parse_and_resolve config device s args)
       (\<lambda>(s', input_ids, x). embedding_body config device ext s' input_ids x)"

section \<open>\<^verbatim>\<open>LlamaForCausalLMPipe.__init__\<close>: the layer list and the segmentation\<close>

datatype layer_class = LlamaEmbeddingPipe | LlamaDecoderLayerPipe | LlamaRMSNormPipe | LlamaLMHeadPipe

text \<open>
  A layer descriptor with the keyword arguments the source gives beside \<^verbatim>\<open>config\<close>: a
  \<^verbatim>\<open>SharedLayerDesc\<close> has its key and \<^verbatim>\<open>shared_weight_attr\<close>, the decoder layers their
  own two arguments.
\<close>

datatype layer_desc =
    SharedLayerDesc string layer_class string bool
  | LayerDesc layer_class
  | DecoderLayerDesc bool "(string \<times> bool) list"

text \<open>The name a layer is added under: a fixed string, or \<^verbatim>\<open>f"llama.layers.{i}"\<close>.\<close>

datatype layer_name = Name string | LlamaLayers nat

record pipeline_layer_args =
  layers :: "(layer_desc \<times> layer_name) list"
  seg_method :: string
  recompute_interval :: int
  num_virtual_pipeline_stages :: int

text \<open>Line 390.\<close>

definition no_recompute_layers_of :: "config \<Rightarrow> int list" where
  "no_recompute_layers_of config =
     (case no_recompute_layers config of None \<Rightarrow> [] | Some l \<Rightarrow> l)"

text \<open>Lines 415--424; \<open>get_skip_recompute_ops\<close> is imported from outside the file.\<close>

definition decoder_layer_descs ::
  "(config \<Rightarrow> nat \<Rightarrow> (string \<times> bool) list) \<Rightarrow> config \<Rightarrow> (layer_desc \<times> layer_name) list" where
  "decoder_layer_descs get_skip_recompute_ops config =
     map (\<lambda>i. (DecoderLayerDesc (int i \<notin> set (no_recompute_layers_of config))
                  (get_skip_recompute_ops config i),
                LlamaLayers i))
       [0 ..< nat (num_hidden_layers config)]"

text \<open>The layer object a decoder descriptor builds (the constructor keeps the two arguments).\<close>

definition decoder_layer_of :: "layer_desc \<Rightarrow> bool \<Rightarrow> decoder_layer option" where
  "decoder_layer_of d enabled =
     (case d of
        DecoderLayerDesc lw ops \<Rightarrow>
          Some \<lparr>enable_recompute = enabled, layerwise_recompute = lw, skip_recompute_ops = ops\<rparr>
      | _ \<Rightarrow> None)"

text \<open>
  Lines 442--444. \<open>pipe\<close> is \<^verbatim>\<open>get_hcg().topology().get_dim_size("pipe")\<close>; Python's
  \<^verbatim>\<open>%\<close> raises on a zero divisor and takes the sign of the divisor otherwise, as
  \<open>mod\<close> on \<open>int\<close> does.
\<close>

definition select_seg_method :: "config \<Rightarrow> int \<Rightarrow> error + string" where
  "select_seg_method config pipe =
     (if pipe = 0 then Inl ZeroDivisionError
      else if num_hidden_layers config mod pipe \<noteq> 0 then Inr ''uniform''
      else Inr ''layer:LlamaDecoderLayer'')"

text \<open>Lines 405--459: what \<^verbatim>\<open>__init__\<close> hands to \<^verbatim>\<open>PipelineLayer.__init__\<close>.\<close>

definition LlamaForCausalLMPipe_init ::
  "(config \<Rightarrow> nat \<Rightarrow> (string \<times> bool) list) \<Rightarrow> config \<Rightarrow> int \<Rightarrow> error + pipeline_layer_args" where
  "LlamaForCausalLMPipe_init get_skip_recompute_ops config pipe =
     (let embedding = (if tie_word_embeddings config
                   then (SharedLayerDesc ''llama_shared_weight'' LlamaEmbeddingPipe
                           ''embedding_weight'' False, Name ''llama'')
                   else (LayerDesc LlamaEmbeddingPipe, Name ''llama''));
          decoders = decoder_layer_descs get_skip_recompute_ops config;
          norm = (LayerDesc LlamaRMSNormPipe, Name ''llama'');
          head = (if tie_word_embeddings config
                  then (SharedLayerDesc ''llama_shared_weight'' LlamaLMHeadPipe
                          ''embedding_weight'' True, Name ''lm_head'')
                  else (LayerDesc LlamaLMHeadPipe, Name ''lm_head''))
      in bind_err (select_seg_method config pipe) (\<lambda>m.
           Inr \<lparr>layers = embedding # decoders @ [norm, head],
                seg_method = m,
                recompute_interval = 0,
                num_virtual_pipeline_stages =
                  (case virtual_pp_degree config of None \<Rightarrow> 1 | Some v \<Rightarrow> v)\<rparr>))"

section \<open>The batch splitter: \<^verbatim>\<open>_prepare_pipeline_inputs_func\<close>\<close>

text \<open>
  Python values a batch holds, and a \<^verbatim>\<open>dict\<close> as the list of its items in insertion
  order.
\<close>

datatype pyval = PNone | PInts "int list" | PList "pyval list" | PTuple "pyval list"

type_synonym dict = "(string \<times> pyval) list"

datatype inputs = Dict dict | DictList "dict list"

definition first_stage_keys :: "string list" where
  "first_stage_keys =
     [''input_ids'', ''attention_mask'', ''attn_mask_startend_row_indices'', ''position_ids'']"

definition last_stage_keys :: "string list" where
  "last_stage_keys = [''labels'']"

text \<open>\<^verbatim>\<open>d.pop(k)\<close>: the value and the dictionary without the key, or nothing when the key is
  missing.\<close>

definition dict_pop :: "dict \<Rightarrow> string \<Rightarrow> (pyval \<times> dict) option" where
  "dict_pop d k =
     (case map_of d k of
        None \<Rightarrow> None
      | Some v \<Rightarrow> Some (v, filter (\<lambda>kv. fst kv \<noteq> k) d))"

text \<open>\<^verbatim>\<open>[inputs.pop(k) if k in inputs else None for k in keys]\<close>, with the dictionary left.\<close>

fun pop_expected :: "dict \<Rightarrow> string list \<Rightarrow> pyval list \<times> dict" where
  "pop_expected d [] = ([], d)"
| "pop_expected d (k # ks) =
     (case dict_pop d k of
        None \<Rightarrow> (case pop_expected d ks of (vs, d') \<Rightarrow> (PNone # vs, d'))
      | Some (v, d1) \<Rightarrow> (case pop_expected d1 ks of (vs, d') \<Rightarrow> (v # vs, d')))"

definition get_expected_keys :: "dict \<Rightarrow> string list \<Rightarrow> pyval \<times> dict" where
  "get_expected_keys inputs keys =
     (case pop_expected inputs keys of
        (ret, inputs') \<Rightarrow> (if length ret = 1 then ret ! 0 else PTuple ret, inputs'))"

text \<open>\<^verbatim>\<open>[data.pop(key) for data in inputs]\<close>: a missing key raises \<^verbatim>\<open>KeyError\<close>.\<close>

fun pop_each :: "string \<Rightarrow> dict list \<Rightarrow> error + (pyval list \<times> dict list)" where
  "pop_each key [] = Inr ([], [])"
| "pop_each key (d # ds) =
     (case dict_pop d key of
        None \<Rightarrow> Inl (KeyError key)
      | Some (v, d') \<Rightarrow>
          (case pop_each key ds of
             Inl e \<Rightarrow> Inl e
           | Inr (vs, ds') \<Rightarrow> Inr (v # vs, d' # ds')))"

text \<open>Line 379: the dictionary comprehension over \<^verbatim>\<open>keys\<close>.\<close>

fun inputs_batch :: "string list \<Rightarrow> dict list \<Rightarrow> error + dict" where
  "inputs_batch [] ds = Inr []"
| "inputs_batch (key # keys) ds =
     (case pop_each key ds of
        Inl e \<Rightarrow> Inl e
      | Inr (vs, ds') \<Rightarrow>
          (case inputs_batch keys ds' of
             Inl e \<Rightarrow> Inl e
           | Inr rest \<Rightarrow> Inr ((key, PList vs) # rest)))"

text \<open>The two-element list both branches return.\<close>

definition split_stages :: "dict \<Rightarrow> pyval list" where
  "split_stages d =
     (case get_expected_keys d first_stage_keys of
        (first_stage, d1) \<Rightarrow>
          (case get_expected_keys d1 last_stage_keys of
             (last_stage, d2) \<Rightarrow> [first_stage, last_stage]))"

definition prepare_pipeline_inputs_func :: "inputs \<Rightarrow> error + pyval list" where
  "prepare_pipeline_inputs_func inputs =
     (case inputs of
        Dict d \<Rightarrow> Inr (split_stages d)
      | DictList ds \<Rightarrow>
          (case ds of
             [] \<Rightarrow> Inl IndexError
           | d0 # _ \<Rightarrow>
               (case inputs_batch (map fst d0) ds of
                  Inl e \<Rightarrow> Inl e
                | Inr b \<Rightarrow> Inr (split_stages b))))"

section \<open>Sentence pooling in \<^verbatim>\<open>llm_embed/modeling.py\<close>\<close>

text \<open>
  A hidden state is the list, over the batch, of the token vectors of a sequence; a mask
  the list, over the batch, of its rows. The numbers of a vector are not looked at by
  the selections below, so their type is a parameter.
\<close>

type_synonym 'a hidden = "'a list list list"
type_synonym mask = "int list list"

text \<open>
  What pooling reads of a \<^verbatim>\<open>BiEncoderModel\<close>: its \<^verbatim>\<open>sentence_pooling_method\<close>, the
  \<^verbatim>\<open>padding_side\<close> of its tokenizer, and the outcome of looking up the attribute
  \<^verbatim>\<open>pooling_method\<close>, which \<^verbatim>\<open>__init__\<close> never sets (\<open>None\<close>: the lookup raises
  \<^verbatim>\<open>AttributeError\<close>).
\<close>

record bi_encoder =
  sentence_pooling_method :: string
  padding_side :: string
  pooling_method :: "string option"

text \<open>Indexing with a Python integer: a negative index counts from the end.\<close>

definition py_index :: "'b list \<Rightarrow> int \<Rightarrow> error + 'b" where
  "py_index xs i =
     (if 0 \<le> i \<and> i < int (length xs) then Inr (xs ! nat i)
      else if i < 0 \<and> - int (length xs) \<le> i then Inr (xs ! nat (int (length xs) + i))
      else Inl IndexError)"

fun sequence_err :: "(error + 'b) list \<Rightarrow> error + 'b list" where
  "sequence_err [] = Inr []"
| "sequence_err (x # xs) =
     (case x of
        Inl e \<Rightarrow> Inl e
      | Inr v \<Rightarrow> (case sequence_err xs of Inl e \<Rightarrow> Inl e | Inr vs \<Rightarrow> Inr (v # vs)))"

text \<open>\<^verbatim>\<open>hidden_state[:, i]\<close>\<close>

definition select_token :: "'a hidden \<Rightarrow> int \<Rightarrow> error + 'a list list" where
  "select_token hidden_state i = sequence_err (map (\<lambda>row. py_index row i) hidden_state)"

text \<open>
  \<^verbatim>\<open>sequence_lengths = mask.sum(axis=1); last_token_indices = sequence_lengths - 1;
  hidden_state[paddle.arange(hidden_state.shape[0]), last_token_indices]\<close>
\<close>

definition select_last_token :: "'a hidden \<Rightarrow> mask \<Rightarrow> error + 'a list list" where
  "select_last_token hidden_state m =
     (if length m \<noteq> length hidden_state then Inl IndexError
      else sequence_err (map (\<lambda>(row, mrow). py_index row (sum_list mrow - 1))
                           (zip hidden_state m)))"

text \<open>
  The two mean poolings are floating-point arithmetic of Paddle (a product with the
  mask, a sum and a quotient; the training path casts the mask with \<^verbatim>\<open>.float()\<close>, the
  inference path does not). They are parameters.
\<close>

record 'a paddle_mean =
  mean_float_mask :: "'a hidden \<Rightarrow> mask \<Rightarrow> error + 'a list list"
  mean_raw_mask :: "'a hidden \<Rightarrow> mask \<Rightarrow> error + 'a list list"

text \<open>\<^verbatim>\<open>BiEncoderModel.sentence_embedding\<close>, lines 96--110.\<close>

definition sentence_embedding ::
  "'a paddle_mean \<Rightarrow> bi_encoder \<Rightarrow> 'a hidden \<Rightarrow> mask \<Rightarrow> error + 'a list list" where
  "sentence_embedding ops self hidden_state m =
     (if sentence_pooling_method self = ''mean'' then mean_float_mask ops hidden_state m
      else if sentence_pooling_method self = ''cls'' then select_token hidden_state 0
      else if sentence_pooling_method self = ''last'' then select_last_token hidden_state m
      else Inl (ValueError (''Invalid sentence pooling method: '' @ sentence_pooling_method self)))"

text \<open>
  The pooling of \<^verbatim>\<open>BiEncoderModel.encode_sentences\<close>, lines 245--261, on the last hidden
  state and the attention mask of a batch. In the last branch the message is formatted
  from \<^verbatim>\<open>self.pooling_method\<close> before \<^verbatim>\<open>NotImplementedError\<close> is built.
\<close>

definition encode_sentences_pooling ::
  "'a paddle_mean \<Rightarrow> bi_encoder \<Rightarrow> 'a hidden \<Rightarrow> mask \<Rightarrow> error + 'a list list" where
  "encode_sentences_pooling ops self last_hidden_state attention_mask =
     (if sentence_pooling_method self = ''last'' then
        (if padding_side self = ''right'' then select_last_token last_hidden_state attention_mask
         else if padding_side self = ''left'' then select_token last_hidden_state (- 1)
         else Inl (NotImplementedError (''Padding side '' @ padding_side self @ '' not supported.'')))
      else if sentence_pooling_method self = ''cls'' then select_token last_hidden_state 1
      else if sentence_pooling_method self = ''mean'' then
        mean_raw_mask ops last_hidden_state attention_mask
      else (case pooling_method self of
              None \<Rightarrow> Inl (AttributeError ''pooling_method'')
            | Some v \<Rightarrow> Inl (NotImplementedError (''Pooling method '' @ v @ '' not supported.''))))"

section \<open>Notions the properties are stated with\<close>

text \<open>A reference that is not \<^verbatim>\<open>None\<close> points into the store.\<close>

definition valid_ref :: "'a store \<Rightarrow> ref option \<Rightarrow> bool" where
  "valid_ref s x = (case x of None \<Rightarrow> True | Some r \<Rightarrow> r < length s)"

text \<open>Two tensors equal in value: the same numbers, shape and element type.\<close>

definition same_value :: "'a tensor \<Rightarrow> 'a tensor \<Rightarrow> bool" where
  "same_value t u = (data t = data u \<and> shape t = shape u \<and> dtype t = dtype u)"

text \<open>
  The populated auxiliary slots are a prefix of the slot order: a slot is populated only
  if the one before it is.
\<close>

definition contiguous_prefix ::
  "ref option \<Rightarrow> ref option \<Rightarrow> ref option \<Rightarrow> ref option \<Rightarrow> bool" where
  "contiguous_prefix am rim pid al =
     ((rim = None \<or> am \<noteq> None) \<and> (pid = None \<or> rim \<noteq> None) \<and> (al = None \<or> pid \<noteq> None))"

text \<open>
  How a slot \<open>x\<close> of the store \<open>s\<close> comes back as \<open>x'\<close> in the store \<open>s'\<close>: an empty slot
  stays empty; a populated one holds a tensor that was not in \<open>s\<close>, equal in value to
  the original and with \<open>stop_gradient\<close> set.
\<close>

definition decoded_as :: "'a store \<Rightarrow> 'a store \<Rightarrow> ref option \<Rightarrow> ref option \<Rightarrow> bool" where
  "decoded_as s s' x x' =
     (case x of
        None \<Rightarrow> x' = None
      | Some r \<Rightarrow>
          (case x' of
             None \<Rightarrow> False
           | Some c \<Rightarrow> length s \<le> c \<and> c < length s' \<and> same_value (s' ! c) (s ! r)
                        \<and> stop_gradient (s' ! c)))"

fun envelope_elements :: "args \<Rightarrow> ref option list" where
  "envelope_elements (NonTuple x) = [x]"
| "envelope_elements (Tuple xs) = xs"

fun present :: "ref option list \<Rightarrow> ref list" where
  "present [] = []"
| "present (None # xs) = present xs"
| "present (Some r # xs) = r # present xs"

text \<open>\<^verbatim>\<open>d[k] if k in d else None\<close>\<close>

definition get_or_None :: "dict \<Rightarrow> string \<Rightarrow> pyval" where
  "get_or_None d k = (case map_of d k of None \<Rightarrow> PNone | Some v \<Rightarrow> v)"

section \<open>Concrete values for the instances\<close>

definition tensor_of :: "nat \<Rightarrow> dtype \<Rightarrow> bool \<Rightarrow> nat tensor" where
  "tensor_of d ty sg = \<lparr>data = d, shape = [1, 2], dtype = ty, stop_gradient = sg\<rparr>"

definition plain_config :: config where
  "plain_config =
     \<lparr>alibi = False, sequence_parallel = False, num_attention_heads = 8, num_hidden_layers = 4,
      tensor_parallel_degree = 1, tensor_parallel_rank = 0, tie_word_embeddings = False,
      recompute_granularity = ''full'', recompute_use_reentrant = False,
      no_recompute_layers = Some [1], virtual_pp_degree = None\<rparr>"

text \<open>Tensor operations that all succeed.\<close>

definition ok_externals :: "nat externals" where
  "ok_externals =
     \<lparr>embed_tokens = (\<lambda>t. Inr (tensor_of 7 Float16 False)),
      scatter = (\<lambda>t. Inr t),
      ones_bool = (\<lambda>sh. tensor_of 1 Bool True),
      tril = (\<lambda>t. t),
      astype_bool = (\<lambda>t. t\<lparr>dtype := Bool\<rparr>),
      build_alibi_tensor = (\<lambda>t n ty. Inr (tensor_of 2 ty True)),
      slice_heads = (\<lambda>t lo hi. Inr t),
      reshape = (\<lambda>t sh. Inr t),
      prepare_decoder_attention_mask = (\<lambda>t bs ty. Inr (tensor_of 3 ty True))\<rparr>"


definition no_mean :: "int paddle_mean" where
  "no_mean =
     \<lparr>mean_float_mask = (\<lambda>h m. Inl (ExternalError ''mean'')),
      mean_raw_mask = (\<lambda>h m. Inl (ExternalError ''mean''))\<rparr>"

section \<open>Properties of the codec\<close>

lemma set_stop_gradient_None [simp]: "set_stop_gradient s None = s"
  by (simp add: set_stop_gradient_def)

lemma set_stop_gradient_Some [simp]:
  "set_stop_gradient s (Some r) = s[r := (s ! r)\<lparr>stop_gradient := True\<rparr>]"
  by (simp add: set_stop_gradient_def)

lemma append_clone_None [simp]: "append_clone sr None = sr"
  by (simp add: append_clone_def)

lemma append_clone_Some [simp]:
  "append_clone (s, ret) (Some r) = (s @ [s ! r], ret @ [Some (length s)])"
  by (simp add: append_clone_def clone_def)

text \<open>
  C1. The arity-to-slot mapping of \<^verbatim>\<open>parse_args\<close> is fixed: a value that is not a tuple is
  \<open>hidden_states\<close> with the four auxiliary slots absent; a tuple of length 2 is
  \<open>(hidden_states, attention_mask)\<close>; of length 3 \<open>(hidden_states, attention_mask,
  row_index_mask)\<close>; of length 4 these and \<open>position_ids\<close>, with the bias absent; of
  length 5 all five slots in order. The store returned is the given one with
  \<open>stop_gradient\<close> set on the auxiliary tensors present.
\<close>

theorem parse_args_arity_to_slot:
  "parse_args s (NonTuple h) = Inr (s, (h, None, None, None, None)) \<and>
   parse_args s (Tuple [h, am]) =
     Inr (set_stop_gradient s am, (h, am, None, None, None)) \<and>
   parse_args s (Tuple [h, am, rim]) =
     Inr (set_stop_gradient (set_stop_gradient s am) rim, (h, am, rim, None, None)) \<and>
   parse_args s (Tuple [h, am, rim, pid]) =
     Inr (set_stop_gradient (set_stop_gradient (set_stop_gradient s pid) am) rim,
          (h, am, rim, pid, None)) \<and>
   parse_args s (Tuple [h, am, rim, pid, al]) =
     Inr (set_stop_gradient (set_stop_gradient (set_stop_gradient (set_stop_gradient s pid) am) rim) al,
          (h, am, rim, pid, al))"
  by (simp add: parse_args_def Let_def del: set_stop_gradient_Some)

text \<open>
  C2. Round trip. When the populated auxiliary slots are a contiguous prefix of the slot
  order, \<^verbatim>\<open>parse_args\<close> applied to the result of \<^verbatim>\<open>return_args\<close> succeeds and gives
  back: \<open>hidden_states\<close> itself, its tensor as it was (the decoder does not touch its
  \<open>stop_gradient\<close>); in every slot that was populated a tensor equal in value to the
  original, marked \<open>stop_gradient\<close>; and nothing in the slots that were empty. The
  tensors the caller held are unchanged.
\<close>

theorem parse_return_args_roundtrip:
  assumes "h < length s"
    and "valid_ref s am" and "valid_ref s rim" and "valid_ref s pid" and "valid_ref s al"
    and "contiguous_prefix am rim pid al"
  shows "\<exists>s' am' rim' pid' al'.
     parse_args (fst (return_args s (Some h) am rim pid al))
                (snd (return_args s (Some h) am rim pid al))
       = Inr (s', (Some h, am', rim', pid', al'))
     \<and> s' ! h = s ! h
     \<and> take (length s) s' = s
     \<and> decoded_as s s' am am' \<and> decoded_as s s' rim rim'
     \<and> decoded_as s s' pid pid' \<and> decoded_as s s' al al'"
  using assms
  apply (cases am; cases rim; cases pid; cases al)
  apply (simp_all add: contiguous_prefix_def valid_ref_def return_args_def Let_def
           parse_args_def decoded_as_def same_value_def nth_append nth_list_update)
  done

theorem parse_return_args_roundtrip_witness:
  "\<exists>s' am' rim' pid' al'.
     parse_args
       (fst (return_args [tensor_of 0 Float16 False, tensor_of 1 Bool False, tensor_of 2 Int64 False]
               (Some 0) (Some 1) (Some 2) None None))
       (snd (return_args [tensor_of 0 Float16 False, tensor_of 1 Bool False, tensor_of 2 Int64 False]
               (Some 0) (Some 1) (Some 2) None None))
       = Inr (s', (Some 0, am', rim', pid', al'))
     \<and> s' ! 0 = [tensor_of 0 Float16 False, tensor_of 1 Bool False, tensor_of 2 Int64 False] ! 0
     \<and> take (length [tensor_of 0 Float16 False, tensor_of 1 Bool False, tensor_of 2 Int64 False]) s'
         = [tensor_of 0 Float16 False, tensor_of 1 Bool False, tensor_of 2 Int64 False]
     \<and> decoded_as [tensor_of 0 Float16 False, tensor_of 1 Bool False, tensor_of 2 Int64 False] s'
         (Some 1) am'
     \<and> decoded_as [tensor_of 0 Float16 False, tensor_of 1 Bool False, tensor_of 2 Int64 False] s'
         (Some 2) rim'
     \<and> decoded_as [tensor_of 0 Float16 False, tensor_of 1 Bool False, tensor_of 2 Int64 False] s'
         None pid'
     \<and> decoded_as [tensor_of 0 Float16 False, tensor_of 1 Bool False, tensor_of 2 Int64 False] s'
         None al'"
  by (rule parse_return_args_roundtrip) (simp_all add: valid_ref_def contiguous_prefix_def)

text \<open>
  C3. \<^verbatim>\<open>return_args\<close> forwards \<open>hidden_states\<close> as it is and, for every auxiliary
  argument that is not \<^verbatim>\<open>None\<close>, a clone: the envelope is \<open>hidden_states\<close> followed by
  the objects the call created, in order, each with the contents of the argument it was
  cloned from. The tensors the caller held are unchanged, and stay so when any of the
  forwarded clones is overwritten in place.
\<close>

theorem return_args_clones_auxiliary:
  assumes "valid_ref s am" and "valid_ref s rim" and "valid_ref s pid" and "valid_ref s al"
  shows "take (length s) (fst (return_args s h am rim pid al)) = s
     \<and> envelope_elements (snd (return_args s h am rim pid al))
         = h # map Some [length s ..< length (fst (return_args s h am rim pid al))]
     \<and> map ((!) (fst (return_args s h am rim pid al)))
           [length s ..< length (fst (return_args s h am rim pid al))]
         = map ((!) s) (present [am, rim, pid, al])
     \<and> (\<forall>c t. take (length s) ((fst (return_args s h am rim pid al))[length s + c := t]) = s)"
  using assms
  apply (cases am; cases rim; cases pid; cases al)
  apply (simp_all add: valid_ref_def return_args_def Let_def nth_append upt_rec
           take_update_cancel list_update_beyond)
  done

theorem return_args_clones_auxiliary_witness:
  "take (length [tensor_of 0 Float16 False, tensor_of 1 Bool False])
        (fst (return_args [tensor_of 0 Float16 False, tensor_of 1 Bool False]
                (Some 0) (Some 1) None None None))
     = [tensor_of 0 Float16 False, tensor_of 1 Bool False]
   \<and> envelope_elements (snd (return_args [tensor_of 0 Float16 False, tensor_of 1 Bool False]
                                (Some 0) (Some 1) None None None))
       = Some 0 # map Some
           [length [tensor_of 0 Float16 False, tensor_of 1 Bool False] ..<
            length (fst (return_args [tensor_of 0 Float16 False, tensor_of 1 Bool False]
                           (Some 0) (Some 1) None None None))]
   \<and> map ((!) (fst (return_args [tensor_of 0 Float16 False, tensor_of 1 Bool False]
                      (Some 0) (Some 1) None None None)))
         [length [tensor_of 0 Float16 False, tensor_of 1 Bool False] ..<
          length (fst (return_args [tensor_of 0 Float16 False, tensor_of 1 Bool False]
                         (Some 0) (Some 1) None None None))]
       = map ((!) [tensor_of 0 Float16 False, tensor_of 1 Bool False])
           (present [Some 1, None, None, None])
   \<and> (\<forall>c t. take (length [tensor_of 0 Float16 False, tensor_of 1 Bool False])
               ((fst (return_args [tensor_of 0 Float16 False, tensor_of 1 Bool False]
                        (Some 0) (Some 1) None None None))
                  [length [tensor_of 0 Float16 False, tensor_of 1 Bool False] + c := t])
             = [tensor_of 0 Float16 False, tensor_of 1 Bool False])"
  by (rule return_args_clones_auxiliary) (simp_all add: valid_ref_def)

section \<open>Properties of the mask resolver\<close>

text \<open>
  C4. Without positional bias and on the \<^verbatim>\<open>gpu\<close> device, the resolver of both
  \<^verbatim>\<open>forward\<close> methods does this: an \<open>attention_mask\<close> of element type \<open>int32\<close> moves
  to the row-index-mask slot, \<open>attention_mask\<close> becomes absent and \<open>position_ids\<close>
  receives what the row-index-mask slot held; an \<open>attention_mask\<close> of element type
  \<open>int64\<close> becomes \<open>position_ids\<close>, the two mask slots becoming absent; with
  \<open>attention_mask\<close> absent, a row-index mask of element type \<open>int64\<close> becomes
  \<open>position_ids\<close> and the row-index-mask slot becomes absent. The bias slot is left
  as it is.
\<close>

theorem resolve_masks_gpu_no_alibi:
  assumes "\<not> alibi config"
  shows "(dtype (s ! a) = Int32 \<longrightarrow>
            resolve_masks config ''gpu'' s (Some a, rim, pid, al) = (None, Some a, rim, al))
       \<and> (dtype (s ! b) = Int64 \<longrightarrow>
            resolve_masks config ''gpu'' s (Some b, rim, pid, al) = (None, None, Some b, al))
       \<and> (dtype (s ! r) = Int64 \<longrightarrow>
            resolve_masks config ''gpu'' s (None, Some r, pid, al) = (None, None, Some r, al))"
  using assms by (simp add: resolve_masks_def has_dtype_def)

theorem resolve_masks_gpu_no_alibi_witness:
  "resolve_masks plain_config ''gpu''
     [tensor_of 0 Float16 False, tensor_of 1 Int32 True, tensor_of 2 Int64 True]
     (Some 1, Some 2, None, None) = (None, Some 1, Some 2, None)
   \<and> resolve_masks plain_config ''gpu''
     [tensor_of 0 Float16 False, tensor_of 1 Int32 True, tensor_of 2 Int64 True]
     (Some 2, Some 2, None, None) = (None, None, Some 2, None)
   \<and> resolve_masks plain_config ''gpu''
     [tensor_of 0 Float16 False, tensor_of 1 Int32 True, tensor_of 2 Int64 True]
     (None, Some 2, None, None) = (None, None, Some 2, None)"
  using resolve_masks_gpu_no_alibi
    [where config = plain_config
       and s = "[tensor_of 0 Float16 False, tensor_of 1 Int32 True, tensor_of 2 Int64 True]"
       and a = 1 and b = 2 and r = 2 and rim = "Some 2" and pid = None and al = None]
  by (simp add: plain_config_def tensor_of_def)

section \<open>Properties of the recompute decision\<close>

lemma decoder_layer_descs_nth:
  "i < nat (num_hidden_layers config) \<Longrightarrow>
   decoder_layer_descs gs config ! i
     = (DecoderLayerDesc (int i \<notin> set (no_recompute_layers_of config)) (gs config i), LlamaLayers i)"
  by (simp add: decoder_layer_descs_def)

text \<open>
  C5, as the code has it. For the decoder layer \<^verbatim>\<open>__init__\<close> builds at index \<open>i\<close>: the
  decision to recompute is false whenever \<open>has_gradient\<close> is false; it is false when the
  granularity is not \<^verbatim>\<open>full\<close> or \<open>i\<close> is in \<^verbatim>\<open>no_recompute_layers\<close>; whenever it is false
  the layer runs its ordinary forward; under granularity \<^verbatim>\<open>full\<close>, with
  \<open>has_gradient\<close> true, the layer not excluded and the layer's \<^verbatim>\<open>enable_recompute\<close> flag
  set, it is true; and whenever it is true the forward is wrapped in one of the two
  recompute functions.
\<close>

theorem recompute_decision:
  assumes "i < nat (num_hidden_layers config)"
    and "decoder_layer_of (fst (decoder_layer_descs gs config ! i)) enabled = Some layer"
  shows "\<not> should_recompute config layer False
     \<and> (recompute_granularity config \<noteq> ''full'' \<or> int i \<in> set (no_recompute_layers_of config)
          \<longrightarrow> \<not> should_recompute config layer hg)
     \<and> (\<not> should_recompute config layer (\<not> stop_gradient (s ! h))
          \<longrightarrow> (\<exists>kw. decoder_call config layer s h x = Direct h kw))
     \<and> (enabled \<and> recompute_granularity config = ''full'' \<and> hg
          \<and> int i \<notin> set (no_recompute_layers_of config)
          \<longrightarrow> should_recompute config layer hg)
     \<and> (should_recompute config layer (\<not> stop_gradient (s ! h))
          \<longrightarrow> (\<exists>fn kw ur. decoder_call config layer s h x = Recomputed fn h kw ur))"
  using assms
  by (cases x)
     (auto simp add: decoder_layer_descs_nth decoder_layer_of_def should_recompute_def
        decoder_call_def Let_def)

theorem recompute_decision_witness:
  "\<not> should_recompute plain_config
       \<lparr>enable_recompute = True, layerwise_recompute = True, skip_recompute_ops = []\<rparr> False
   \<and> should_recompute plain_config
       \<lparr>enable_recompute = True, layerwise_recompute = True, skip_recompute_ops = []\<rparr> True
   \<and> (\<exists>fn kw ur.
        decoder_call plain_config
          \<lparr>enable_recompute = True, layerwise_recompute = True, skip_recompute_ops = []\<rparr>
          [tensor_of 0 Float16 False] 0 (None, None, None, None)
        = Recomputed fn 0 kw ur)"
  using recompute_decision
    [where config = plain_config and i = 0 and gs = "\<lambda>c i. []" and enabled = True
       and layer = "\<lparr>enable_recompute = True, layerwise_recompute = True, skip_recompute_ops = []\<rparr>"
       and hg = True and s = "[tensor_of 0 Float16 False]" and h = 0
       and x = "(None, None, None, None)"]
  by (simp add: plain_config_def tensor_of_def decoder_layer_descs_def decoder_layer_of_def
        no_recompute_layers_of_def should_recompute_def)

text \<open>
  The claim as the specification states it fails: granularity \<^verbatim>\<open>full\<close>, a gradient on
  \<open>hidden_states\<close> and a layer that is not excluded do not suffice. With
  \<^verbatim>\<open>enable_recompute\<close> unset, layer 0 of the configuration runs its ordinary forward.
\<close>

theorem recompute_needs_enable_flag:
  "recompute_granularity plain_config = ''full''
   \<and> int 0 \<notin> set (no_recompute_layers_of plain_config)
   \<and> \<not> stop_gradient ([tensor_of 0 Float16 False] ! 0)
   \<and> decoder_layer_of (fst (decoder_layer_descs (\<lambda>c i. []) plain_config ! 0)) False
       = Some \<lparr>enable_recompute = False, layerwise_recompute = True, skip_recompute_ops = []\<rparr>
   \<and> \<not> should_recompute plain_config
         \<lparr>enable_recompute = False, layerwise_recompute = True, skip_recompute_ops = []\<rparr> True
   \<and> decoder_call plain_config
       \<lparr>enable_recompute = False, layerwise_recompute = True, skip_recompute_ops = []\<rparr>
       [tensor_of 0 Float16 False] 0 (None, None, None, None)
     = Direct 0 [(''position_ids'', None), (''attention_mask'', None), (''alibi'', None),
                 (''attn_mask_startend_row_indices'', None)]"
  by (simp add: plain_config_def tensor_of_def decoder_layer_descs_def decoder_layer_of_def
        no_recompute_layers_of_def should_recompute_def decoder_call_def upt_rec)

section \<open>Invalid envelopes\<close>



lemma alibi_step_no_alibi:
  "\<not> alibi config \<Longrightarrow> alibi_step config ext s am rim bs e = Inr (s, None)"
  by (simp add: alibi_step_def split: prod.split)

lemma mask_step_both:
  "mask_step device ext s (Some a) (Some r) bs e
     = Inl (AssertionError
              ''attention_mask and attn_mask_startend_row_indices can not be set at same time'')"
  by (simp add: mask_step_def split: prod.split)





text \<open>
  With tensor operations that all succeed, the error the embedding layer raises on an
  envelope with both masks is the assertion of line 223.
\<close>

lemma embedding_forward_assertion_example:
  "LlamaEmbeddingPipe_forward plain_config ''cpu'' ok_externals
     [tensor_of 0 Int64 False, tensor_of 1 Bool True, tensor_of 2 Int32 True,
      tensor_of 3 Int64 True]
     (Tuple [Some 0, Some 1, Some 2, Some 3])
   = Inl (AssertionError
            ''attention_mask and attn_mask_startend_row_indices can not be set at same time'')"
  by (simp add: LlamaEmbeddingPipe_forward_def parse_and_resolve_def parse_args_def
        resolve_masks_def embedding_body_def embed_step_def input_shape_def alloc_def
        alibi_step_no_alibi mask_step_both bind_err_def plain_config_def ok_externals_def
        tensor_of_def Let_def)

section \<open>Segmentation and the batch splitter\<close>

text \<open>
  C7. For a pipeline dimension that is not zero, \<^verbatim>\<open>__init__\<close> selects the segmentation
  \<^verbatim>\<open>layer:LlamaDecoderLayer\<close> exactly when the number of hidden layers is a multiple of
  the pipeline dimension, and \<^verbatim>\<open>uniform\<close> exactly when it is not.
\<close>

theorem seg_method_selection:
  assumes "pipe \<noteq> 0"
  shows "\<exists>a. LlamaForCausalLMPipe_init gs config pipe = Inr a
     \<and> (seg_method a = ''layer:LlamaDecoderLayer'' \<longleftrightarrow> num_hidden_layers config mod pipe = 0)
     \<and> (seg_method a = ''uniform'' \<longleftrightarrow> num_hidden_layers config mod pipe \<noteq> 0)"
  using assms
  by (simp add: LlamaForCausalLMPipe_init_def select_seg_method_def bind_err_def Let_def)

theorem seg_method_selection_witness:
  "(\<exists>a. LlamaForCausalLMPipe_init (\<lambda>c i. []) plain_config 2 = Inr a
        \<and> seg_method a = ''layer:LlamaDecoderLayer'')
   \<and> (\<exists>a. LlamaForCausalLMPipe_init (\<lambda>c i. []) plain_config 3 = Inr a
        \<and> seg_method a = ''uniform'')"
proof -
  have "(4::int) mod 2 = 0" and "(4::int) mod 3 \<noteq> 0" and "(2::int) \<noteq> 0" and "(3::int) \<noteq> 0"
    by simp_all
  moreover have "num_hidden_layers plain_config = 4"
    by (simp add: plain_config_def)
  ultimately show ?thesis
    using seg_method_selection [where pipe = 2 and config = plain_config and gs = "\<lambda>c i. []"]
      seg_method_selection [where pipe = 3 and config = plain_config and gs = "\<lambda>c i. []"]
    by auto
qed

lemma map_of_filter_other:
  "k' \<noteq> k \<Longrightarrow> map_of (filter (\<lambda>kv. fst kv \<noteq> k) d) k' = map_of d k'"
  by (induction d) auto

lemma pop_expected_snd:
  "k \<notin> set ks \<Longrightarrow> map_of (snd (pop_expected d ks)) k = map_of d k"
  by (induction ks arbitrary: d)
     (auto simp add: dict_pop_def map_of_filter_other split_beta split: option.split)

lemma pop_expected_fst:
  "distinct ks \<Longrightarrow> fst (pop_expected d ks) = map (get_or_None d) ks"
proof (induction ks arbitrary: d)
  case Nil
  show ?case by simp
next
  case (Cons k ks)
  show ?case
  proof (cases "map_of d k")
    case None
    with Cons show ?thesis
      by (simp add: dict_pop_def get_or_None_def split_beta)
  next
    case (Some v)
    have neq: "\<And>x. x \<in> set ks \<Longrightarrow> x \<noteq> k"
      using Cons.prems by auto
    have "map (get_or_None (filter (\<lambda>kv. fst kv \<noteq> k) d)) ks = map (get_or_None d) ks"
      by (simp add: get_or_None_def map_of_filter_other neq)
    with Some Cons show ?thesis
      by (simp add: dict_pop_def get_or_None_def split_beta)
  qed
qed

lemma get_expected_first:
  "get_expected_keys d first_stage_keys =
     (PTuple (map (get_or_None d) first_stage_keys), snd (pop_expected d first_stage_keys))"
proof -
  have "distinct first_stage_keys" by (simp add: first_stage_keys_def)
  then have "fst (pop_expected d first_stage_keys) = map (get_or_None d) first_stage_keys"
    by (rule pop_expected_fst)
  moreover have "length first_stage_keys = 4" by (simp add: first_stage_keys_def)
  ultimately show ?thesis
    by (simp add: get_expected_keys_def split_beta)
qed

lemma get_expected_last:
  "fst (get_expected_keys d last_stage_keys) = get_or_None d ''labels''"
  by (simp add: get_expected_keys_def last_stage_keys_def dict_pop_def get_or_None_def split_beta
        split: option.split)

lemma split_single_mapping:
  "prepare_pipeline_inputs_func (Dict d) =
     Inr [PTuple [get_or_None d ''input_ids'', get_or_None d ''attention_mask'',
                  get_or_None d ''attn_mask_startend_row_indices'', get_or_None d ''position_ids''],
          get_or_None d ''labels'']"
proof -
  have "''labels'' \<notin> set first_stage_keys" by (simp add: first_stage_keys_def)
  then have "get_or_None (snd (pop_expected d first_stage_keys)) ''labels'' = get_or_None d ''labels''"
    by (simp add: get_or_None_def pop_expected_snd)
  moreover have "map (get_or_None d) first_stage_keys =
     [get_or_None d ''input_ids'', get_or_None d ''attention_mask'',
      get_or_None d ''attn_mask_startend_row_indices'', get_or_None d ''position_ids'']"
    by (simp add: first_stage_keys_def)
  ultimately show ?thesis
    using get_expected_last [of "snd (pop_expected d first_stage_keys)"]
    by (simp add: prepare_pipeline_inputs_func_def split_stages_def get_expected_first split_beta)
qed

text \<open>
  C8. On the single mapping \<^verbatim>\<open>{"input_ids": [1,2,3], "attention_mask": [1,1,1],
  "labels": [4]}\<close> the batch splitter returns the first-stage tuple
  \<^verbatim>\<open>([1,2,3], [1,1,1], None, None)\<close> and the last-stage value \<^verbatim>\<open>[4]\<close>, not wrapped in a
  tuple. On every single mapping it returns, without an error, the four first-stage
  fields in order and the label field, each \<^verbatim>\<open>None\<close> when the mapping lacks it.
\<close>

theorem batch_splitter_example:
  "prepare_pipeline_inputs_func
     (Dict [(''input_ids'', PInts [1, 2, 3]), (''attention_mask'', PInts [1, 1, 1]),
            (''labels'', PInts [4])])
     = Inr [PTuple [PInts [1, 2, 3], PInts [1, 1, 1], PNone, PNone], PInts [4]]
   \<and> prepare_pipeline_inputs_func (Dict d)
     = Inr [PTuple [get_or_None d ''input_ids'', get_or_None d ''attention_mask'',
                    get_or_None d ''attn_mask_startend_row_indices'',
                    get_or_None d ''position_ids''],
            get_or_None d ''labels'']"
  by (simp add: split_single_mapping get_or_None_def)

section \<open>Properties of sentence pooling\<close>




text \<open>
  The branch of \<^verbatim>\<open>encode_sentences\<close> for an unsupported method does not name the method:
  with no attribute \<^verbatim>\<open>pooling_method\<close> on the object, formatting the message raises
  \<^verbatim>\<open>AttributeError\<close>.
\<close>

lemma encode_sentences_unsupported_method:
  assumes "sentence_pooling_method self \<notin> {''last'', ''cls'', ''mean''}"
    and "pooling_method self = None"
  shows "encode_sentences_pooling ops self hs m = Inl (AttributeError ''pooling_method'')"
  using assms by (simp add: encode_sentences_pooling_def)

text \<open>
  C10 fails on the code: for \<^verbatim>\<open>cls\<close> pooling \<^verbatim>\<open>sentence_embedding\<close> takes the token at
  position 0 and \<^verbatim>\<open>encode_sentences\<close> the token at position 1.
\<close>

theorem cls_pooling_positions_differ:
  "sentence_embedding no_mean
     \<lparr>sentence_pooling_method = ''cls'', padding_side = ''right'', pooling_method = None\<rparr>
     [[[1], [2]]] [[1, 1]]
     = Inr [[1]]
   \<and> encode_sentences_pooling no_mean
     \<lparr>sentence_pooling_method = ''cls'', padding_side = ''right'', pooling_method = None\<rparr>
     [[[1], [2]]] [[1, 1]]
     = Inr [[2]]"
  by (simp add: sentence_embedding_def encode_sentences_pooling_def select_token_def py_index_def)

end
